theory Spec2Isabelle
  imports Complex_Main "HOL-Library.Sublist" "HOL-Library.AList"
    "HOL-Library.Char_ord" "HOL-Library.List_Lexorder" "HOL-Library.Log_Nat"
begin

section \<open>Python values\<close>

text \<open>
  The handlers receive and return JSON-shaped Python values. A Python float is held as
  the rational number it denotes (\<open>PNum\<close>); \<open>to_float\<close> below says which rationals those are
  and how a sum is rounded to one. A dict is an association list read with \<open>map_of\<close>, so the first binding of a key is the
  one that counts.
\<close>

datatype pyval =
    PNone
  | PBool bool
  | PInt int
  | PNum rat
  | PStr string
  | PDate int
  | PList "pyval list"
  | PDict "(string \<times> pyval) list"

type_synonym pydict = "(string \<times> pyval) list"

text \<open>Python truthiness, as used by \<^verbatim>\<open>if x:\<close> and \<^verbatim>\<open>not x\<close>.\<close>

fun truthy :: "pyval \<Rightarrow> bool" where
  "truthy PNone = False"
| "truthy (PBool b) = b"
| "truthy (PInt i) = (i \<noteq> 0)"
| "truthy (PNum r) = (r \<noteq> 0)"
| "truthy (PStr s) = (s \<noteq> [])"
| "truthy (PDate d) = True"
| "truthy (PList xs) = (xs \<noteq> [])"
| "truthy (PDict d) = (d \<noteq> [])"

text \<open>\<^verbatim>\<open>d.get(k)\<close>: the value, or None when the key is absent.\<close>

definition dict_get :: "pydict \<Rightarrow> string \<Rightarrow> pyval" where
  "dict_get d k = (case map_of d k of None \<Rightarrow> PNone | Some v \<Rightarrow> v)"

text \<open>\<^verbatim>\<open>d[k] = v\<close>, and \<^verbatim>\<open>doc.set(k, v)\<close> on a document's fields.\<close>

definition dict_set :: "string \<Rightarrow> pyval \<Rightarrow> pydict \<Rightarrow> pydict" where
  "dict_set k v d = AList.update k v d"

definition startswith :: "string \<Rightarrow> string \<Rightarrow> bool" where
  "startswith s p = prefix p s"

definition quote :: string where
  "quote = [CHR 0x27]"

fun type_name :: "pyval \<Rightarrow> string" where
  "type_name PNone = ''NoneType''"
| "type_name (PBool b) = ''bool''"
| "type_name (PInt i) = ''int''"
| "type_name (PNum r) = ''float''"
| "type_name (PStr s) = ''str''"
| "type_name (PDate d) = ''datetime.date''"
| "type_name (PList xs) = ''list''"
| "type_name (PDict d) = ''dict''"

section \<open>Python floats\<close>

text \<open>
  A finite double is a rational \<open>m * 2 ^ e\<close> with \<open>\<bar>m\<bar> < 2 ^ 53\<close>. \<open>to_float\<close> rounds a
  rational to the nearest such number, a tie going to the even mantissa: this is what
  \<^verbatim>\<open>float(Decimal)\<close> and the addition of two floats do. The exponent is not bounded here:
  overflow and subnormal numbers are outside this model.
\<close>

text \<open>\<open>num / den\<close> rounded to the nearest integer, a tie to the even one (\<open>0 \<le> num\<close>, \<open>0 < den\<close>).\<close>

definition round_half_even :: "int \<Rightarrow> int \<Rightarrow> int" where
  "round_half_even num den =
     (let d = num div den; r = num mod den
      in if 2 * r < den then d else if den < 2 * r then d + 1
         else if even d then d else d + 1)"

text \<open>The integer \<open>e\<close> with \<open>2 ^ e \<le> p / q < 2 ^ (e + 1)\<close>, for positive \<open>p\<close> and \<open>q\<close>.\<close>

definition floor_log2 :: "int \<Rightarrow> int \<Rightarrow> int" where
  "floor_log2 p q =
     (let d = bitlen p - bitlen q
      in if (if 0 \<le> d then q * 2 ^ nat d \<le> p else q \<le> p * 2 ^ nat (- d)) then d else d - 1)"

definition to_float :: "rat \<Rightarrow> rat" where
  "to_float x =
     (if x = 0 then 0
      else
        let (p, q) = quotient_of \<bar>x\<bar>;
            s = 52 - floor_log2 p q;
            m = (if 0 \<le> s then round_half_even (p * 2 ^ nat s) q
                 else round_half_even p (q * 2 ^ nat (- s)))
        in sgn x * (if 0 \<le> s then of_int m / 2 ^ nat s else of_int m * 2 ^ nat (- s)))"

text \<open>Python's \<^verbatim>\<open>a + b\<close> on two floats: the exact sum, rounded.\<close>

definition float_add :: "rat \<Rightarrow> rat \<Rightarrow> rat" where
  "float_add a b = to_float (a + b)"

section \<open>Exceptions\<close>

text \<open>
  Every raise is a value. \<open>DoesNotExistError\<close> is the framework's not-found exception; the
  other constructors fall under the generic \<^verbatim>\<open>except Exception\<close> clauses.
\<close>

datatype exn =
    DoesNotExistError string
  | DuplicateEntryError string
  | ValidationError string
  | AttributeError string
  | OtherError string

fun exn_str :: "exn \<Rightarrow> string" where
  "exn_str (DoesNotExistError m) = m"
| "exn_str (DuplicateEntryError m) = m"
| "exn_str (ValidationError m) = m"
| "exn_str (AttributeError m) = m"
| "exn_str (OtherError m) = m"

fun is_DoesNotExistError :: "exn \<Rightarrow> bool" where
  "is_DoesNotExistError (DoesNotExistError m) = True"
| "is_DoesNotExistError _ = False"

text \<open>An entry of the server-side error log: a traceback under a title, or a bare message.\<close>

datatype log_entry = LogTraceback exn string | LogMessage string

section \<open>The Property store and the framework\<close>

record document =
  doctype :: string
  name :: "string option"
  fieldvals :: pydict

text \<open>
  Rows of the tables the handlers read. Columns that are only passed through keep whatever
  value the database holds; columns that are compared or sorted on are typed. String
  comparison is exact.
\<close>

record user_row =
  u_name :: string
  u_email :: pyval
  u_full_name :: string
  u_user_image :: pyval
  u_phone :: pyval
  u_enabled :: int

record has_role_row =
  hr_parent :: string
  hr_role :: string

record rental_row =
  r_name :: string
  r_property :: string
  r_tenant :: string
  r_status :: string
  r_start_date :: pyval
  r_end_date :: pyval
  r_monthly_rent :: pyval
  r_creation :: int

record payment_row =
  pay_name :: string
  amount_tzs :: "rat option"
  docstatus :: int

record role_doc =
  role_name :: string
  desk_access :: int
  is_custom :: int

text \<open>
  The backing store. The Property table maps a name (the primary key) to the row's field
  values; the Role table is a list of rows, each under its name.
\<close>

record world =
  tabProperty :: "string \<rightharpoonup> pydict"
  tabFile :: "pydict list"
  tabUser :: "user_row list"
  tabHasRole :: "has_role_row list"
  tabRental :: "rental_row list"
  tabPayment :: "payment_row list"
  tabRole :: "(string \<times> role_doc) list"
  error_log :: "log_entry list"

text \<open>The read queries issued through \<^verbatim>\<open>frappe.db.sql\<close> and \<^verbatim>\<open>frappe.get_all\<close> with row dicts.\<close>

datatype query =
    Q_users_with_roles
  | Q_user_roles pyval
  | Q_active_rental pyval
  | Q_active_properties pyval

text \<open>
  What the framework decides and this repository does not: the name a new document gets,
  the validation run by insert and save, the File document built for an upload, whether
  the database layer raises on a query, the sort key of the database collation, and
  Python's \<^verbatim>\<open>str()\<close> of a payload value.
\<close>

record frappe =
  autoname :: "document \<Rightarrow> world \<Rightarrow> string"
  validate :: "document \<Rightarrow> world \<Rightarrow> exn option"
  new_file :: "pyval \<Rightarrow> pyval \<Rightarrow> string \<Rightarrow> string option \<Rightarrow> string \<Rightarrow> int \<Rightarrow> world \<Rightarrow> exn + pydict"
  db_fault :: "query \<Rightarrow> world \<Rightarrow> exn option"
  collate :: "string \<Rightarrow> string"
  py_str :: "pyval \<Rightarrow> string"

text \<open>
  A handler step runs on the world and returns either an exception or a value, together
  with the world as it is at that point: writes made before a raise stay made.
\<close>

type_synonym ('a, 'w) step = "'w \<Rightarrow> (exn + 'a) \<times> 'w"

text \<open>\<^verbatim>\<open>frappe.get_doc("Property", name)\<close> raises DoesNotExistError when no row has that name.\<close>

definition get_doc :: "string \<Rightarrow> (document, world) step" where
  "get_doc n w =
     (case tabProperty w n of
        None \<Rightarrow> (Inl (DoesNotExistError (''Property '' @ n @ '' not found'')), w)
      | Some row \<Rightarrow> (Inr \<lparr>doctype = ''Property'', name = Some n, fieldvals = row\<rparr>, w))"


text \<open>\<^verbatim>\<open>doc.save()\<close>: validate, then write the row under the document's name.\<close>

definition save :: "frappe \<Rightarrow> document \<Rightarrow> (document, world) step" where
  "save fr d w =
     (case validate fr d w of
        Some e \<Rightarrow> (Inl e, w)
      | None \<Rightarrow>
          (case name d of
             None \<Rightarrow> (Inl (ValidationError ''document has no name''), w)
           | Some n \<Rightarrow> (Inr d, w\<lparr>tabProperty := (tabProperty w)(n \<mapsto> fieldvals d)\<rparr>)))"

text \<open>\<^verbatim>\<open>save_file(...)\<close>: the framework builds a File document and appends it to the File table.\<close>

definition save_file ::
  "frappe \<Rightarrow> pyval \<Rightarrow> pyval \<Rightarrow> string \<Rightarrow> string option \<Rightarrow> string \<Rightarrow> int \<Rightarrow> (pydict, world) step" where
  "save_file fr fname content dt dn folder is_private w =
     (case new_file fr fname content dt dn folder is_private w of
        Inl e \<Rightarrow> (Inl e, w)
      | Inr file_doc \<Rightarrow> (Inr file_doc, w\<lparr>tabFile := tabFile w @ [file_doc]\<rparr>))"

definition log_error :: "log_entry \<Rightarrow> world \<Rightarrow> world" where
  "log_error entry w = w\<lparr>error_log := error_log w @ [entry]\<rparr>"

section \<open>Image slot resolution\<close>

text \<open>
  \<^verbatim>\<open>handle_image_upload(doc, field_name, file_data)\<close>. A value that is neither falsy, nor a
  string, nor a dict has no \<^verbatim>\<open>get\<close>: the call raises AttributeError.
\<close>

definition handle_image_upload ::
  "frappe \<Rightarrow> document \<Rightarrow> string \<Rightarrow> pyval \<Rightarrow> (pyval, world) step" where
  "handle_image_upload fr doc field_name file_data w =
     (if \<not> truthy file_data then (Inr PNone, w)
      else
        (case file_data of
           PStr s \<Rightarrow>
             if startswith s ''/files/'' \<or> startswith s ''/private/files/''
             then (Inr file_data, w)
             else (Inr PNone, w)
         | PDict d \<Rightarrow>
             let filename = dict_get d ''filename'';
                 content = dict_get d ''content''
             in
               if \<not> (truthy filename \<and> truthy content) then (Inr PNone, w)
               else
                 (case save_file fr filename content (doctype doc) (name doc)
                         ''Home/Attachments'' 0 w of
                    (Inl e, w') \<Rightarrow> (Inl e, w')
                  | (Inr file_doc, w') \<Rightarrow> (Inr (dict_get file_doc ''file_url''), w'))
         | _ \<Rightarrow>
             (Inl (AttributeError (quote @ type_name file_data @ quote
                     @ '' object has no attribute '' @ quote @ ''get'' @ quote)), w)))"

section \<open>Creating and updating a Property\<close>

definition image_fields :: "string list" where
  "image_fields = [''image'', ''image_1'', ''image_2'', ''image_3'', ''image_4'']"

definition updateable_fields :: "string list" where
  "updateable_fields =
     [''title'', ''location'', ''price_tzs'', ''bedrooms'',
      ''bathroom'', ''status'', ''description'', ''square_meters'']"

definition set_field :: "string \<Rightarrow> pyval \<Rightarrow> document \<Rightarrow> document" where
  "set_field k v doc = doc\<lparr>fieldvals := dict_set k v (fieldvals doc)\<rparr>"


text \<open>The image loop of \<^verbatim>\<open>update_property\<close>: a slot is resolved when its key is in \<open>data\<close>.\<close>

fun update_image_loop ::
  "(document \<Rightarrow> string \<Rightarrow> pyval \<Rightarrow> (pyval, 'w) step) \<Rightarrow> pydict \<Rightarrow> string list
     \<Rightarrow> document \<Rightarrow> (document, 'w) step" where
  "update_image_loop resolve data [] doc w = (Inr doc, w)"
| "update_image_loop resolve data (field # rest) doc w =
     (case map_of data field of
        None \<Rightarrow> update_image_loop resolve data rest doc w
      | Some v \<Rightarrow>
          (case resolve doc field v w of
             (Inl e, w') \<Rightarrow> (Inl e, w')
           | (Inr file_url, w') \<Rightarrow>
               update_image_loop resolve data rest
                 (if truthy file_url then set_field field file_url doc else doc) w'))"

text \<open>The loop over the scalar fields of \<^verbatim>\<open>update_property\<close>.\<close>

fun update_field_loop :: "pydict \<Rightarrow> string list \<Rightarrow> document \<Rightarrow> document" where
  "update_field_loop data [] doc = doc"
| "update_field_loop data (field # rest) doc =
     (case map_of data field of
        None \<Rightarrow> update_field_loop data rest doc
      | Some v \<Rightarrow> update_field_loop data rest (set_field field (dict_get data field) doc))"

definition success_payload :: "frappe \<Rightarrow> string \<Rightarrow> document \<Rightarrow> pydict" where
  "success_payload fr verb doc =
     [(''message'', PStr (''Property '' @ quote @ py_str fr (dict_get (fieldvals doc) ''title'')
                          @ quote @ '' '' @ verb @ '' successfully.'')),
      (''property'', (case name doc of None \<Rightarrow> PNone | Some n \<Rightarrow> PStr n))]"




text \<open>The body of the \<^verbatim>\<open>try\<close> of \<^verbatim>\<open>update_property\<close>.\<close>

definition update_property_try :: "frappe \<Rightarrow> string \<Rightarrow> pydict \<Rightarrow> (pydict, world) step" where
  "update_property_try fr n data w =
     (case get_doc n w of
        (Inl e, w0) \<Rightarrow> (Inl e, w0)
      | (Inr property_doc, w0) \<Rightarrow>
          (let doc1 = update_field_loop data updateable_fields property_doc in
             (case update_image_loop (handle_image_upload fr) data image_fields doc1 w0 of
                (Inl e, w1) \<Rightarrow> (Inl e, w1)
              | (Inr doc2, w1) \<Rightarrow>
                  (case save fr doc2 w1 of
                     (Inl e, w2) \<Rightarrow> (Inl e, w2)
                   | (Inr doc3, w2) \<Rightarrow> (Inr (success_payload fr ''updated'' doc3), w2)))))"

definition update_property :: "frappe \<Rightarrow> string \<Rightarrow> pydict \<Rightarrow> world \<Rightarrow> pydict \<times> world" where
  "update_property fr n data w =
     (case update_property_try fr n data w of
        (Inr payload, w') \<Rightarrow> (payload, w')
      | (Inl e, w') \<Rightarrow>
          if is_DoesNotExistError e then
            ([(''error'', PStr (''Property with name '' @ quote @ n @ quote @ '' does not exist.''))],
             log_error (LogTraceback e ''Property Update Error'') w')
          else
            ([(''error'', PStr (''An error occurred while updating the property: '' @ exn_str e))],
             log_error (LogTraceback e ''Property Update Error'') w'))"

section \<open>Payment aggregation\<close>

text \<open>
  SQL \<^verbatim>\<open>SUM\<close> over the decimal column \<^verbatim>\<open>amount_tzs\<close>: NULL cells are skipped, the sum of no
  cells is NULL, the sum of the others is exact, and the database connector hands it to
  Python as a float.
\<close>

fun non_null :: "'a option list \<Rightarrow> 'a list" where
  "non_null [] = []"
| "non_null (None # cells) = non_null cells"
| "non_null (Some x # cells) = x # non_null cells"

definition sql_sum :: "rat option list \<Rightarrow> pyval" where
  "sql_sum cells =
     (case non_null cells of [] \<Rightarrow> PNone | y # ys \<Rightarrow> PNum (to_float (sum_list (y # ys))))"

text \<open>
  \<^verbatim>\<open>SELECT SUM(amount_tzs) FROM tabPayment WHERE docstatus = st\<close>: one row of one column.
\<close>

definition select_sum_amount :: "int \<Rightarrow> world \<Rightarrow> pyval list list" where
  "select_sum_amount st w =
     [[sql_sum (map amount_tzs (filter (\<lambda>p. docstatus p = st) (tabPayment w)))]]"

definition get_total_rent_paid_all :: "world \<Rightarrow> pyval" where
  "get_total_rent_paid_all w =
     (let total_rent = select_sum_amount 1 w
      in if total_rent \<noteq> [] \<and> truthy (total_rent ! 0 ! 0) then total_rent ! 0 ! 0 else PNum 0)"

definition get_pending_rent :: "world \<Rightarrow> pyval" where
  "get_pending_rent w =
     (let total_rent = select_sum_amount 0 w
      in if total_rent \<noteq> [] \<and> truthy (total_rent ! 0 ! 0) then total_rent ! 0 ! 0 else PNum 0)"

section \<open>Role seeding\<close>

text \<open>\<^verbatim>\<open>frappe.db.exists("Role", n)\<close>.\<close>

definition role_exists :: "world \<Rightarrow> string \<Rightarrow> bool" where
  "role_exists w n = (n \<in> set (map fst (tabRole w)))"

text \<open>
  \<^verbatim>\<open>role.insert(ignore_permissions=True)\<close>: a Role is named after its \<^verbatim>\<open>role_name\<close>; a name
  already in the table is refused.
\<close>

definition insert_role :: "role_doc \<Rightarrow> (unit, world) step" where
  "insert_role r w =
     (if role_exists w (role_name r) then (Inl (DuplicateEntryError (role_name r)), w)
      else (Inr (), w\<lparr>tabRole := tabRole w @ [(role_name r, r)]\<rparr>))"

definition execute :: "(unit, world) step" where
  "execute w =
     (case (if \<not> role_exists w ''Landlord''
            then insert_role \<lparr>role_name = ''Landlord'', desk_access = 1, is_custom = 1\<rparr> w
            else (Inr (), w)) of
        (Inl e, w1) \<Rightarrow> (Inl e, w1)
      | (Inr u, w1) \<Rightarrow>
          (if \<not> role_exists w1 ''Tenant''
           then insert_role \<lparr>role_name = ''Tenant'', desk_access = 1, is_custom = 1\<rparr> w1
           else (Inr (), w1)))"

section \<open>Queries of the dashboard handlers\<close>

definition user_select :: "user_row \<Rightarrow> pydict" where
  "user_select u =
     [(''name'', PStr (u_name u)), (''email'', u_email u), (''full_name'', PStr (u_full_name u)),
      (''user_image'', u_user_image u), (''phone'', u_phone u)]"

definition property_title :: "world \<Rightarrow> string \<Rightarrow> pyval" where
  "property_title w p = (case tabProperty w p of None \<Rightarrow> PNone | Some row \<Rightarrow> dict_get row ''title'')"

definition rental_select :: "world \<Rightarrow> rental_row \<Rightarrow> pydict" where
  "rental_select w r =
     [(''name'', PStr (r_name r)), (''property'', PStr (r_property r)),
      (''start_date'', r_start_date r), (''end_date'', r_end_date r),
      (''monthly_rent'', r_monthly_rent r), (''property_name'', property_title w (r_property r))]"

text \<open>
  The rows each query selects. \<^verbatim>\<open>ORDER BY u.full_name\<close> sorts on the collation key;
  \<^verbatim>\<open>ORDER BY r.creation DESC LIMIT 1\<close> keeps the first row of the descending order (rows of
  equal creation stay in table order); \<^verbatim>\<open>get_all(..., distinct=True)\<close> drops repeated rows.
\<close>

fun run_query :: "frappe \<Rightarrow> query \<Rightarrow> world \<Rightarrow> pydict list" where
  "run_query fr Q_users_with_roles w =
     remdups (map user_select
       (sort_key (\<lambda>u. collate fr (u_full_name u))
          [u. u \<leftarrow> tabUser w, hr \<leftarrow> tabHasRole w,
              u_name u = hr_parent hr,
              hr_role hr = ''Tenants'' \<or> hr_role hr = ''System Manager'',
              u_enabled u = 1]))"
| "run_query fr (Q_user_roles parent) w =
     map (\<lambda>hr. [(''role'', PStr (hr_role hr))])
       (filter (\<lambda>hr. PStr (hr_parent hr) = parent) (tabHasRole w))"
| "run_query fr (Q_active_rental tenant) w =
     map (rental_select w)
       (take 1 (sort_key (\<lambda>r. - r_creation r)
          (filter (\<lambda>r. PStr (r_tenant r) = tenant \<and> r_status r = ''Active'') (tabRental w))))"
| "run_query fr (Q_active_properties tenant) w =
     remdups (map (\<lambda>r. [(''property'', PStr (r_property r))])
       (filter (\<lambda>r. PStr (r_tenant r) = tenant \<and> r_status r = ''Active'') (tabRental w)))"

definition db_query :: "frappe \<Rightarrow> query \<Rightarrow> world \<Rightarrow> exn + pydict list" where
  "db_query fr q w = (case db_fault fr q w of Some e \<Rightarrow> Inl e | None \<Rightarrow> Inr (run_query fr q w))"

section \<open>Users with dashboard roles\<close>

text \<open>A \<^verbatim>\<open>for\<close> loop that rebuilds each element and stops at the first raise.\<close>

fun for_each :: "('a \<Rightarrow> exn + 'b) \<Rightarrow> 'a list \<Rightarrow> exn + 'b list" where
  "for_each body [] = Inr []"
| "for_each body (x # xs) =
     (case body x of
        Inl e \<Rightarrow> Inl e
      | Inr y \<Rightarrow> (case for_each body xs of Inl e \<Rightarrow> Inl e | Inr ys \<Rightarrow> Inr (y # ys)))"

text \<open>Body of the first loop: \<^verbatim>\<open>user['roles'] = [role.role for role in user_roles]\<close>.\<close>

definition attach_roles :: "frappe \<Rightarrow> world \<Rightarrow> pydict \<Rightarrow> exn + pydict" where
  "attach_roles fr w user =
     (case db_query fr (Q_user_roles (dict_get user ''name'')) w of
        Inl e \<Rightarrow> Inl e
      | Inr user_roles \<Rightarrow>
          Inr (dict_set ''roles'' (PList [dict_get role ''role''. role \<leftarrow> user_roles]) user))"

text \<open>\<^verbatim>\<open>user.get('roles', [])\<close>, read as the list the membership test runs over.\<close>

definition roles_of :: "pydict \<Rightarrow> pyval list" where
  "roles_of user = (case map_of user ''roles'' of Some (PList rs) \<Rightarrow> rs | _ \<Rightarrow> [])"

text \<open>Body of the second loop.\<close>

definition attach_rental :: "frappe \<Rightarrow> world \<Rightarrow> pydict \<Rightarrow> exn + pydict" where
  "attach_rental fr w user =
     (if PStr ''Tenants'' \<in> set (roles_of user) then
        (case db_query fr (Q_active_rental (dict_get user ''name'')) w of
           Inl e \<Rightarrow> Inl e
         | Inr rental \<Rightarrow>
             (case rental of
                rental_info # rest \<Rightarrow>
                  Inr (dict_set ''rental_status'' (PStr ''Active'')
                      (dict_set ''monthly_rent'' (dict_get rental_info ''monthly_rent'')
                      (dict_set ''lease_end'' (dict_get rental_info ''end_date'')
                      (dict_set ''lease_start'' (dict_get rental_info ''start_date'')
                      (dict_set ''property_name'' (dict_get rental_info ''property_name'')
                      (dict_set ''assigned_property'' (dict_get rental_info ''property'')
                         user))))))
              | [] \<Rightarrow>
                  Inr (dict_set ''property_name'' PNone
                      (dict_set ''assigned_property'' PNone
                      (dict_set ''rental_status'' (PStr ''Inactive'') user)))))
      else
        Inr (dict_set ''property_name'' PNone
            (dict_set ''assigned_property'' PNone
            (dict_set ''rental_status'' (PStr ''N/A'') user))))"

text \<open>The body of the \<^verbatim>\<open>try\<close> of \<^verbatim>\<open>get_users_with_roles\<close>.\<close>

definition get_users_with_roles_try :: "frappe \<Rightarrow> world \<Rightarrow> exn + pydict list" where
  "get_users_with_roles_try fr w =
     (case db_query fr Q_users_with_roles w of
        Inl e \<Rightarrow> Inl e
      | Inr users_with_roles \<Rightarrow>
          (case for_each (attach_roles fr w) users_with_roles of
             Inl e \<Rightarrow> Inl e
           | Inr users1 \<Rightarrow> for_each (attach_rental fr w) users1))"

definition get_users_with_roles :: "frappe \<Rightarrow> world \<Rightarrow> pydict list \<times> world" where
  "get_users_with_roles fr w =
     (case get_users_with_roles_try fr w of
        Inr users \<Rightarrow> (users, w)
      | Inl e \<Rightarrow> ([], log_error (LogMessage (''Error in get_users_with_roles: '' @ exn_str e)) w))"

section \<open>Active properties of a tenant\<close>

definition get_active_properties_count :: "frappe \<Rightarrow> string \<Rightarrow> world \<Rightarrow> pydict \<times> world" where
  "get_active_properties_count fr tenant w =
     (case db_query fr (Q_active_properties (PStr tenant)) w of
        Inr rentals \<Rightarrow>
          (let active_properties_count = int (length rentals)
           in ([(''message'', PStr ''Active properties count fetched successfully.''),
                (''tenant'', PStr tenant),
                (''active_properties_count'', PInt active_properties_count)], w))
      | Inl e \<Rightarrow>
          ([(''error'', PStr (''An error occurred while fetching active properties count: ''
                              @ exn_str e)),
            (''tenant'', PStr tenant),
            (''active_properties_count'', PInt 0)],
           log_error (LogTraceback e ''Active Properties Count Error'') w))"

section \<open>The calls a handler makes to the resolver\<close>






section \<open>Sample data\<close>

text \<open>A framework that validates everything, never fails a query and stores files under /files/.\<close>

definition sample_frappe :: frappe where
  "sample_frappe =
     \<lparr>autoname = (\<lambda>d w. ''PROP-NEW''),
      validate = (\<lambda>d w. None),
      new_file = (\<lambda>fname content dt dn folder is_private w.
                    case fname of
                      PStr s \<Rightarrow> Inr [(''file_name'', fname), (''file_url'', PStr (''/files/'' @ s))]
                    | _ \<Rightarrow> Inl (ValidationError ''file name must be a string'')),
      db_fault = (\<lambda>q w. None),
      collate = (\<lambda>s. s),
      py_str = (\<lambda>v. case v of PStr s \<Rightarrow> s | _ \<Rightarrow> ''None'')\<rparr>"

text \<open>The same framework with a database that fails every active-rental query.\<close>

definition faulty_frappe :: frappe where
  "faulty_frappe =
     sample_frappe\<lparr>db_fault :=
       (\<lambda>q w. case q of Q_active_rental t \<Rightarrow> Some (OtherError ''connection lost'') | _ \<Rightarrow> None)\<rparr>"

definition rental_early :: rental_row where
  "rental_early =
     \<lparr>r_name = ''RENT-1'', r_property = ''PROP-1'', r_tenant = ''amina@example.com'',
      r_status = ''Active'', r_start_date = PDate 19000, r_end_date = PDate 19365,
      r_monthly_rent = PNum 400, r_creation = 100\<rparr>"

definition rental_late :: rental_row where
  "rental_late =
     \<lparr>r_name = ''RENT-2'', r_property = ''PROP-2'', r_tenant = ''amina@example.com'',
      r_status = ''Active'', r_start_date = PDate 19400, r_end_date = PDate 19765,
      r_monthly_rent = PNum 550, r_creation = 200\<rparr>"

definition rental_same_a :: rental_row where
  "rental_same_a =
     \<lparr>r_name = ''RENT-3'', r_property = ''PROP-1'', r_tenant = ''bakari@example.com'',
      r_status = ''Active'', r_start_date = PDate 19000, r_end_date = PDate 19100,
      r_monthly_rent = PNum 400, r_creation = 300\<rparr>"

definition rental_same_b :: rental_row where
  "rental_same_b =
     \<lparr>r_name = ''RENT-4'', r_property = ''PROP-1'', r_tenant = ''bakari@example.com'',
      r_status = ''Active'', r_start_date = PDate 19101, r_end_date = PDate 19200,
      r_monthly_rent = PNum 400, r_creation = 400\<rparr>"

definition tenant_amina :: user_row where
  "tenant_amina =
     \<lparr>u_name = ''amina@example.com'', u_email = PStr ''amina@example.com'',
      u_full_name = ''Amina'', u_user_image = PNone, u_phone = PNone, u_enabled = 1\<rparr>"

definition sample_world :: world where
  "sample_world =
     \<lparr>tabProperty =
        [''PROP-1'' \<mapsto> [(''title'', PStr ''Sea View''), (''image'', PStr ''/files/sea.png'')],
         ''PROP-2'' \<mapsto> [(''title'', PStr ''Hill House'')]],
      tabFile = [],
      tabUser = [tenant_amina],
      tabHasRole = [\<lparr>hr_parent = ''amina@example.com'', hr_role = ''Tenants''\<rparr>],
      tabRental = [rental_early, rental_late, rental_same_a, rental_same_b],
      tabPayment =
        [\<lparr>pay_name = ''PAY-1'', amount_tzs = Some 300, docstatus = 1\<rparr>,
         \<lparr>pay_name = ''PAY-2'', amount_tzs = Some 50, docstatus = 0\<rparr>,
         \<lparr>pay_name = ''PAY-3'', amount_tzs = None, docstatus = 1\<rparr>],
      tabRole = [(''Landlord'', \<lparr>role_name = ''Landlord'', desk_access = 1, is_custom = 1\<rparr>)],
      error_log = []\<rparr>"

text \<open>The sample store with two payments, one confirmed of 0.1 and one pending of 0.2.\<close>

definition tenths_world :: world where
  "tenths_world =
     sample_world\<lparr>tabPayment :=
       [\<lparr>pay_name = ''PAY-1'', amount_tzs = Some (1 / 10), docstatus = 1\<rparr>,
        \<lparr>pay_name = ''PAY-2'', amount_tzs = Some (1 / 5), docstatus = 0\<rparr>]\<rparr>"

definition sample_doc :: document where
  "sample_doc =
     \<lparr>doctype = ''Property'', name = Some ''PROP-1'',
      fieldvals = [(''title'', PStr ''Sea View''), (''image'', PStr ''/files/sea.png'')]\<rparr>"

section \<open>Image slot resolution: results by case\<close>

lemma handle_image_upload_no_reference:
  assumes "\<not> truthy v
     \<or> (\<exists>s. v = PStr s \<and> \<not> startswith s ''/files/'' \<and> \<not> startswith s ''/private/files/'')
     \<or> (\<exists>d. v = PDict d \<and> \<not> (truthy (dict_get d ''filename'') \<and> truthy (dict_get d ''content'')))"
  shows "handle_image_upload fr doc f v w = (Inr PNone, w)"
  using assms by (auto simp: handle_image_upload_def Let_def)

text \<open>
  Claim C1. \<open>handle_image_upload\<close> by case of its input: a falsy value (None, the empty
  string, an empty dict) gives None; a string that starts with /files/ or /private/files/
  comes back unchanged; any other string gives None; a dict whose filename or content is
  missing or empty gives None; a dict with both gives the \<open>file_url\<close> of the File document
  that \<open>save_file\<close> has just appended to the File table, when the framework stores it. In
  the first four cases the store is untouched.
\<close>

theorem handle_image_upload_cases:
  "(\<not> truthy v \<longrightarrow> handle_image_upload fr doc f v w = (Inr PNone, w))
   \<and> (startswith s ''/files/'' \<or> startswith s ''/private/files/'' \<longrightarrow>
        handle_image_upload fr doc f (PStr s) w = (Inr (PStr s), w))
   \<and> (\<not> startswith s ''/files/'' \<and> \<not> startswith s ''/private/files/'' \<longrightarrow>
        handle_image_upload fr doc f (PStr s) w = (Inr PNone, w))
   \<and> (\<not> (truthy (dict_get d ''filename'') \<and> truthy (dict_get d ''content'')) \<longrightarrow>
        handle_image_upload fr doc f (PDict d) w = (Inr PNone, w))
   \<and> (truthy (dict_get d ''filename'') \<and> truthy (dict_get d ''content'')
        \<and> new_file fr (dict_get d ''filename'') (dict_get d ''content'') (doctype doc) (name doc)
              ''Home/Attachments'' 0 w = Inr file_doc \<longrightarrow>
        handle_image_upload fr doc f (PDict d) w =
          (Inr (dict_get file_doc ''file_url''), w\<lparr>tabFile := tabFile w @ [file_doc]\<rparr>))"
  by (auto simp: handle_image_upload_def Let_def save_file_def startswith_def dict_get_def
           split: option.splits)

theorem handle_image_upload_cases_witness:
  "handle_image_upload sample_frappe sample_doc ''image'' PNone sample_world
     = (Inr PNone, sample_world)
   \<and> handle_image_upload sample_frappe sample_doc ''image'' (PStr ''/files/a.png'') sample_world
     = (Inr (PStr ''/files/a.png''), sample_world)
   \<and> handle_image_upload sample_frappe sample_doc ''image'' (PStr ''https://cdn/a.png'') sample_world
     = (Inr PNone, sample_world)
   \<and> handle_image_upload sample_frappe sample_doc ''image''
        (PDict [(''filename'', PStr ''a.png'')]) sample_world
     = (Inr PNone, sample_world)
   \<and> handle_image_upload sample_frappe sample_doc ''image''
        (PDict [(''filename'', PStr ''a.png''), (''content'', PStr ''iVBORw0KGgo='')]) sample_world
     = (Inr (PStr ''/files/a.png''),
        sample_world\<lparr>tabFile := tabFile sample_world
           @ [[(''file_name'', PStr ''a.png''), (''file_url'', PStr ''/files/a.png'')]]\<rparr>)"
  using
    handle_image_upload_cases [of PNone sample_frappe sample_doc "''image''" sample_world
      "''/files/a.png''" "[(''filename'', PStr ''a.png''), (''content'', PStr ''iVBORw0KGgo='')]"
      "[(''file_name'', PStr ''a.png''), (''file_url'', PStr ''/files/a.png'')]"]
    handle_image_upload_cases [of PNone sample_frappe sample_doc "''image''" sample_world
      "''https://cdn/a.png''" "[(''filename'', PStr ''a.png'')]" "[]"]
  by (simp add: startswith_def dict_get_def sample_frappe_def)

section \<open>Image slots handed to the resolver\<close>
















section \<open>Updating a Property that does not exist\<close>

text \<open>
  Claim C7. When no Property row has the given name, \<open>update_property\<close> returns exactly the
  payload whose only key is \<open>error\<close>, with the text
  \<^verbatim>\<open>Property with name '<name>' does not exist.\<close> around the given name, logs the traceback
  under "Property Update Error", and writes nothing else; the payload is not the generic
  one, whatever exception text that would carry.
\<close>

theorem update_property_not_found:
  assumes "tabProperty w n = None"
  shows "update_property fr n data w =
           ([(''error'', PStr (''Property with name '' @ quote @ n @ quote @ '' does not exist.''))],
            log_error (LogTraceback (DoesNotExistError (''Property '' @ n @ '' not found''))
                         ''Property Update Error'') w)
         \<and> (\<forall>e. fst (update_property fr n data w) \<noteq>
               [(''error'', PStr (''An error occurred while updating the property: '' @ exn_str e))])"
  using assms by (simp add: update_property_def update_property_try_def get_doc_def)

theorem update_property_not_found_witness:
  "fst (update_property sample_frappe ''PROP-9'' [(''title'', PStr ''Lake House'')] sample_world)
     = [(''error'', PStr (''Property with name '' @ quote @ ''PROP-9'' @ quote @ '' does not exist.''))]"
proof -
  have "tabProperty sample_world ''PROP-9'' = None"
    by (simp add: sample_world_def)
  from update_property_not_found [OF this] show ?thesis by simp
qed

section \<open>Update leaves an unresolved image slot as stored\<close>

lemma map_of_set_field_other:
  "g \<noteq> f \<Longrightarrow> map_of (fieldvals (set_field g u doc)) f = map_of (fieldvals doc) f"
  by (simp add: set_field_def dict_set_def update_conv')

lemma name_set_field: "name (set_field g u doc) = name doc"
  by (simp add: set_field_def)

lemma dict_get_set_field:
  "dict_get (fieldvals (set_field g u doc)) f = (if f = g then u else dict_get (fieldvals doc) f)"
  by (simp add: set_field_def dict_set_def dict_get_def update_conv')

lemma update_field_loop_frame:
  "f \<notin> set fs \<Longrightarrow>
     map_of (fieldvals (update_field_loop data fs doc)) f = map_of (fieldvals doc) f"
  by (induction fs arbitrary: doc) (auto simp: map_of_set_field_other split: option.splits)

lemma update_field_loop_name: "name (update_field_loop data fs doc) = name doc"
  by (induction fs arbitrary: doc) (auto simp: name_set_field split: option.splits)

lemma handle_image_upload_tabProperty:
  "handle_image_upload fr doc f v w = (r, w') \<Longrightarrow> tabProperty w' = tabProperty w"
  by (auto simp: handle_image_upload_def Let_def save_file_def
           split: if_splits pyval.splits sum.splits prod.splits)

lemma update_image_loop_tabProperty:
  "update_image_loop (handle_image_upload fr) data fs doc w = (r, w') \<Longrightarrow>
     tabProperty w' = tabProperty w"
proof (induction fs arbitrary: doc w)
  case Nil
  then show ?case by simp
next
  case (Cons g fs)
  show ?case
  proof (cases "map_of data g")
    case None
    with Cons show ?thesis by simp
  next
    case (Some v)
    obtain r1 w1 where h: "handle_image_upload fr doc g v w = (r1, w1)"
      by (cases "handle_image_upload fr doc g v w")
    then have tp: "tabProperty w1 = tabProperty w"
      by (rule handle_image_upload_tabProperty)
    show ?thesis
    proof (cases r1)
      case (Inl e)
      with Cons.prems Some h tp show ?thesis by simp
    next
      case (Inr u)
      with Cons.prems Some h
      have "update_image_loop (handle_image_upload fr) data fs
              (if truthy u then set_field g u doc else doc) w1 = (r, w')"
        by simp
      then have "tabProperty w' = tabProperty w1" by (rule Cons.IH)
      with tp show ?thesis by simp
    qed
  qed
qed

lemma update_image_loop_name:
  "update_image_loop resolve data fs doc w = (Inr doc', w') \<Longrightarrow> name doc' = name doc"
proof (induction fs arbitrary: doc w)
  case Nil
  then show ?case by simp
next
  case (Cons g fs)
  then show ?case
    by (fastforce simp: name_set_field split: option.splits sum.splits prod.splits if_splits)
qed

lemma update_image_loop_keeps_field:
  assumes "map_of data f = Some v"
    and "\<And>doc w. resolve doc f v w = (Inr PNone, w)"
  shows "update_image_loop resolve data fs doc w = (Inr doc', w') \<Longrightarrow>
           map_of (fieldvals doc') f = map_of (fieldvals doc) f"
proof (induction fs arbitrary: doc w)
  case Nil
  then show ?case by simp
next
  case (Cons g fs)
  show ?case
  proof (cases "g = f")
    case True
    with Cons.prems assms have "update_image_loop resolve data fs doc w = (Inr doc', w')"
      by simp
    then show ?thesis by (rule Cons.IH)
  next
    case False
    show ?thesis
    proof (cases "map_of data g")
      case None
      with Cons show ?thesis by simp
    next
      case (Some u)
      obtain r1 w1 where h: "resolve doc g u w = (r1, w1)"
        by (cases "resolve doc g u w")
      show ?thesis
      proof (cases r1)
        case (Inl e)
        with Cons.prems Some h show ?thesis by simp
      next
        case (Inr url)
        with Cons.prems Some h
        have "update_image_loop resolve data fs
                (if truthy url then set_field g url doc else doc) w1 = (Inr doc', w')"
          by simp
        then have "map_of (fieldvals doc') f =
                   map_of (fieldvals (if truthy url then set_field g url doc else doc)) f"
          by (rule Cons.IH)
        with False show ?thesis by (simp add: map_of_set_field_other)
      qed
    qed
  qed
qed

lemma update_image_loop_keeps_truthy:
  "update_image_loop resolve data fs doc w = (Inr doc', w') \<Longrightarrow>
     truthy (dict_get (fieldvals doc) f) \<Longrightarrow> truthy (dict_get (fieldvals doc') f)"
proof (induction fs arbitrary: doc w)
  case Nil
  then show ?case by simp
next
  case (Cons g fs)
  show ?case
  proof (cases "map_of data g")
    case None
    with Cons show ?thesis by simp
  next
    case (Some u)
    obtain r1 w1 where h: "resolve doc g u w = (r1, w1)"
      by (cases "resolve doc g u w")
    show ?thesis
    proof (cases r1)
      case (Inl e)
      with Cons.prems Some h show ?thesis by simp
    next
      case (Inr url)
      let ?d = "if truthy url then set_field g url doc else doc"
      from Inr Cons.prems Some h
      have run: "update_image_loop resolve data fs ?d w1 = (Inr doc', w')"
        by simp
      have "truthy (dict_get (fieldvals ?d) f)"
        using Cons.prems(2) by (simp add: dict_get_set_field)
      with run show ?thesis by (rule Cons.IH)
    qed
  qed
qed

text \<open>
  What \<open>update_property\<close> leaves in the Property table: either the table as it was, or the
  table with the row of the given name replaced by the document the two loops produced.
\<close>

lemma update_property_table:
  assumes "update_property fr n data w = (payload, w')"
  shows "tabProperty w' = tabProperty w
         \<or> (\<exists>row doc2 w1. tabProperty w n = Some row
              \<and> update_image_loop (handle_image_upload fr) data image_fields
                   (update_field_loop data updateable_fields
                      \<lparr>doctype = ''Property'', name = Some n, fieldvals = row\<rparr>) w = (Inr doc2, w1)
              \<and> tabProperty w' = (tabProperty w)(n \<mapsto> fieldvals doc2))"
proof (cases "tabProperty w n")
  case None
  with assms show ?thesis
    by (auto simp: update_property_def update_property_try_def get_doc_def log_error_def)
next
  case (Some row)
  let ?doc1 = "update_field_loop data updateable_fields
                 \<lparr>doctype = ''Property'', name = Some n, fieldvals = row\<rparr>"
  obtain r1 w1 where
    loop: "update_image_loop (handle_image_upload fr) data image_fields ?doc1 w = (r1, w1)"
    by (cases "update_image_loop (handle_image_upload fr) data image_fields ?doc1 w")
  then have tp: "tabProperty w1 = tabProperty w"
    by (rule update_image_loop_tabProperty)
  show ?thesis
  proof (cases r1)
    case (Inl e)
    with assms Some loop tp show ?thesis
      by (auto simp: update_property_def update_property_try_def get_doc_def log_error_def
               split: if_splits)
  next
    case (Inr doc2)
    with loop have nm: "name doc2 = Some n"
      by (auto dest: update_image_loop_name simp: update_field_loop_name)
    from assms Some loop Inr nm tp show ?thesis
      by (auto simp: update_property_def update_property_try_def get_doc_def log_error_def
                     save_def
               split: if_splits option.splits)
  qed
qed

text \<open>
  Claim C10. Take any call of \<open>update_property\<close> and any image slot. If the slot's key is
  in \<open>data\<close> with a value that resolves to no reference (a falsy value, a string without a
  storage prefix, a dict whose filename or content is missing or empty), then the stored
  value of that field, in every Property row, is after the call what it was before,
  whether the call succeeds or fails. And whatever \<open>data\<close> holds, a row whose image field
  was set (truthy) still has it set afterwards: the update cannot clear it.
\<close>

theorem update_property_keeps_unresolved_image:
  assumes "f \<in> set image_fields"
    and "update_property fr n data w = (payload, w')"
  shows "(map_of data f = Some v
            \<and> (\<not> truthy v
               \<or> (\<exists>s. v = PStr s \<and> \<not> startswith s ''/files/''
                        \<and> \<not> startswith s ''/private/files/'')
               \<or> (\<exists>d. v = PDict d
                        \<and> \<not> (truthy (dict_get d ''filename'') \<and> truthy (dict_get d ''content''))))
            \<longrightarrow>
            map_option (\<lambda>row. map_of row f) (tabProperty w' m)
              = map_option (\<lambda>row. map_of row f) (tabProperty w m))
         \<and> (tabProperty w m = Some row \<and> truthy (dict_get row f) \<longrightarrow>
              (\<exists>row'. tabProperty w' m = Some row' \<and> truthy (dict_get row' f)))"
proof -
  have notin: "f \<notin> set updateable_fields"
    using assms(1) by (auto simp: image_fields_def updateable_fields_def)
  from update_property_table [OF assms(2)]
  consider (same) "tabProperty w' = tabProperty w"
    | (saved) row0 doc2 w1 where "tabProperty w n = Some row0"
        "update_image_loop (handle_image_upload fr) data image_fields
           (update_field_loop data updateable_fields
              \<lparr>doctype = ''Property'', name = Some n, fieldvals = row0\<rparr>) w = (Inr doc2, w1)"
        "tabProperty w' = (tabProperty w)(n \<mapsto> fieldvals doc2)"
    by blast
  then show ?thesis
  proof cases
    case same
    then show ?thesis by simp
  next
    case saved
    let ?doc0 = "\<lparr>doctype = ''Property'', name = Some n, fieldvals = row0\<rparr>"
    let ?doc1 = "update_field_loop data updateable_fields ?doc0"
    have f1: "map_of (fieldvals ?doc1) f = map_of row0 f"
      using update_field_loop_frame [OF notin, of data ?doc0] by simp
    have part1: "map_of (fieldvals doc2) f = map_of row0 f"
      if "map_of data f = Some v"
        "\<not> truthy v
         \<or> (\<exists>s. v = PStr s \<and> \<not> startswith s ''/files/'' \<and> \<not> startswith s ''/private/files/'')
         \<or> (\<exists>d. v = PDict d
                \<and> \<not> (truthy (dict_get d ''filename'') \<and> truthy (dict_get d ''content'')))"
    proof -
      have "\<And>doc w. handle_image_upload fr doc f v w = (Inr PNone, w)"
        using that(2) by (rule handle_image_upload_no_reference)
      from update_image_loop_keeps_field [OF that(1) this saved(2)] f1
      show ?thesis by simp
    qed
    have part2: "truthy (dict_get (fieldvals doc2) f)" if "truthy (dict_get row0 f)"
    proof -
      from that f1 have "truthy (dict_get (fieldvals ?doc1) f)"
        by (simp add: dict_get_def)
      with saved(2) show ?thesis by (rule update_image_loop_keeps_truthy)
    qed
    show ?thesis
      using saved(1,3) part1 part2 by (cases "m = n") auto
  qed
qed

theorem update_property_keeps_unresolved_image_witness:
  "map_option (\<lambda>row. map_of row ''image'')
     (tabProperty (snd (update_property sample_frappe ''PROP-1'' [(''image'', PStr '''')]
                          sample_world)) ''PROP-1'')
     = Some (Some (PStr ''/files/sea.png''))
   \<and> (\<exists>row'. tabProperty (snd (update_property sample_frappe ''PROP-1'' [(''image'', PStr '''')]
                                 sample_world)) ''PROP-1'' = Some row'
              \<and> truthy (dict_get row' ''image''))"
proof -
  let ?run = "update_property sample_frappe ''PROP-1'' [(''image'', PStr '''')] sample_world"
  have slot: "''image'' \<in> set image_fields"
    by (simp add: image_fields_def)
  have run: "?run = (fst ?run, snd ?run)"
    by simp
  have row: "tabProperty sample_world ''PROP-1''
               = Some [(''title'', PStr ''Sea View''), (''image'', PStr ''/files/sea.png'')]"
    by (simp add: sample_world_def)
  from update_property_keeps_unresolved_image
         [OF slot run, of "PStr ''''" "''PROP-1''"
            "[(''title'', PStr ''Sea View''), (''image'', PStr ''/files/sea.png'')]"]
  show ?thesis
    by (simp add: row dict_get_def)
qed

section \<open>Floats: zero and whole numbers\<close>

lemma to_float_zero: "to_float 0 = 0"
  by (simp add: to_float_def)

lemma bitlen_one: "bitlen 1 = 1"
  using bitlen_twopow_add_eq [of 0 0] by simp

lemma floor_log2_whole:
  assumes "0 < p"
  shows "floor_log2 p 1 = bitlen p - 1"
proof -
  have "1 \<le> bitlen p"
    using assms by (simp add: bitlen_ge_iff_power)
  moreover have "2 ^ nat (bitlen p - 1) \<le> p"
    using bitlen_bounds [OF assms] by simp
  ultimately show ?thesis
    by (simp add: floor_log2_def bitlen_one)
qed

lemma round_half_even_whole: "round_half_even a 1 = a"
  by (simp add: round_half_even_def)

lemma quotient_of_abs_int: "quotient_of \<bar>of_int n :: rat\<bar> = (\<bar>n\<bar>, 1)"
proof -
  have "quotient_of (of_int \<bar>n\<bar> :: rat) = (\<bar>n\<bar>, 1)"
    by (rule quotient_of_rat_of_int)
  then show ?thesis by (simp only: of_int_abs)
qed

lemma sgn_times_abs_int: "sgn (of_int n :: rat) * of_int \<bar>n\<bar> = of_int n"
proof -
  have "sgn (of_int n :: rat) * \<bar>of_int n\<bar> = of_int n"
    by (rule sgn_mult_abs)
  then show ?thesis by simp
qed

lemma to_float_of_int:
  assumes "\<bar>n\<bar> < 2 ^ 53"
  shows "to_float (of_int n) = of_int n"
proof (cases "n = 0")
  case True
  then show ?thesis by (simp add: to_float_def)
next
  case False
  let ?p = "\<bar>n\<bar>"
  have pos: "0 < ?p" using False by simp
  have "bitlen ?p \<le> 53"
    using assms by (simp add: bitlen_le_iff_power)
  then have s: "0 \<le> 52 - floor_log2 ?p 1"
    by (simp add: floor_log2_whole [OF pos])
  define k where "k = nat (52 - floor_log2 ?p 1)"
  have nz: "(of_int n :: rat) \<noteq> 0" using False by simp
  have "to_float (of_int n) = sgn (of_int n :: rat) * (of_int (?p * 2 ^ k) / 2 ^ k)"
    unfolding to_float_def quotient_of_abs_int k_def
    using nz s by (simp only: if_False if_True Let_def prod.case round_half_even_whole)
  also have "of_int (?p * 2 ^ k) / 2 ^ k = (of_int ?p :: rat)"
    by simp
  finally show ?thesis by (simp only: sgn_times_abs_int)
qed

section \<open>Payment totals\<close>

lemma non_null_filter_split:
  "sum_list (non_null (map f (filter P xs))) + sum_list (non_null (map f (filter (\<lambda>x. \<not> P x) xs)))
     = sum_list (non_null (map f xs) :: rat list)"
proof (induction xs)
  case Nil
  then show ?case by simp
next
  case (Cons x xs)
  then show ?case by (cases "f x") auto
qed

lemma sql_sum_value:
  "(if truthy (sql_sum cells) then sql_sum cells else PNum 0)
     = PNum (to_float (sum_list (non_null cells)))"
  by (auto simp: sql_sum_def to_float_zero split: list.splits)

lemma get_total_rent_paid_all_eq:
  "get_total_rent_paid_all w =
     PNum (to_float (sum_list (non_null (map amount_tzs
              (filter (\<lambda>p. docstatus p = 1) (tabPayment w))))))"
proof -
  let ?cells = "map amount_tzs (filter (\<lambda>p. docstatus p = 1) (tabPayment w))"
  have "get_total_rent_paid_all w = (if truthy (sql_sum ?cells) then sql_sum ?cells else PNum 0)"
    by (simp add: get_total_rent_paid_all_def select_sum_amount_def Let_def)
  then show ?thesis by (simp only: sql_sum_value)
qed

lemma get_pending_rent_eq:
  "get_pending_rent w =
     PNum (to_float (sum_list (non_null (map amount_tzs
              (filter (\<lambda>p. docstatus p = 0) (tabPayment w))))))"
proof -
  let ?cells = "map amount_tzs (filter (\<lambda>p. docstatus p = 0) (tabPayment w))"
  have "get_pending_rent w = (if truthy (sql_sum ?cells) then sql_sum ?cells else PNum 0)"
    by (simp add: get_pending_rent_def select_sum_amount_def Let_def)
  then show ?thesis by (simp only: sql_sum_value)
qed

lemma float_tenth: "to_float (1 / 10) = 3602879701896397 / 36028797018963968"
  by code_simp

lemma float_fifth: "to_float (1 / 5) = 3602879701896397 / 18014398509481984"
  by code_simp

lemma float_three_tenths: "to_float (3 / 10) = 5404319552844595 / 18014398509481984"
  by code_simp

lemma float_tenth_plus_fifth:
  "float_add (3602879701896397 / 36028797018963968) (3602879701896397 / 18014398509481984)
     = 5404319552844596 / 18014398509481984"
  by code_simp

text \<open>
  Claim C3, as worded, does not hold: the two handlers return floats and their sum is a
  float addition. With one confirmed payment of 0.1 and one pending payment of 0.2 (every
  docstatus 0 or 1), \<open>get_total_rent_paid_all\<close> returns the float nearest 0.1,
  \<open>get_pending_rent\<close> the float nearest 0.2, and their float sum is
  0.30000000000000004, which is neither the sum 3/10 of the column nor the float nearest
  to it.
\<close>

theorem paid_plus_pending_float_counterexample:
  "map docstatus (tabPayment tenths_world) = [1, 0]
   \<and> get_total_rent_paid_all tenths_world = PNum (3602879701896397 / 36028797018963968)
   \<and> get_pending_rent tenths_world = PNum (3602879701896397 / 18014398509481984)
   \<and> float_add (3602879701896397 / 36028797018963968) (3602879701896397 / 18014398509481984)
       = 5404319552844596 / 18014398509481984
   \<and> sum_list (non_null (map amount_tzs (tabPayment tenths_world))) = 3 / 10
   \<and> to_float (3 / 10) = 5404319552844595 / 18014398509481984
   \<and> (5404319552844596 / 18014398509481984 :: rat) \<noteq> 3 / 10
   \<and> (5404319552844596 / 18014398509481984 :: rat) \<noteq> 5404319552844595 / 18014398509481984"
  by (simp add: get_total_rent_paid_all_eq get_pending_rent_eq tenths_world_def
                float_tenth float_fifth float_three_tenths float_tenth_plus_fifth)

text \<open>
  Claim C3, amended. On a Payment table whose rows all have docstatus 0 or 1,
  \<open>get_total_rent_paid_all\<close> returns the float nearest the exact sum of the confirmed
  amounts and \<open>get_pending_rent\<close> the float nearest the exact sum of the pending ones (NULL
  amounts count for nothing, no rows give 0.0); the two exact sums add up to the sum of the
  \<open>amount_tzs\<close> column over all rows; and when the two partial sums and the column sum are
  themselves floats, which \<open>to_float_of_int\<close> shows of whole numbers below \<open>2 ^ 53\<close> in
  size, the float sum of the two results is the sum of the column.
\<close>

theorem paid_plus_pending_when_exact:
  assumes "\<forall>p \<in> set (tabPayment w). docstatus p = 0 \<or> docstatus p = 1"
  shows "\<exists>paid_sum pending_sum.
           paid_sum = sum_list (non_null (map amount_tzs
                        (filter (\<lambda>p. docstatus p = 1) (tabPayment w))))
         \<and> pending_sum = sum_list (non_null (map amount_tzs
                        (filter (\<lambda>p. docstatus p = 0) (tabPayment w))))
         \<and> get_total_rent_paid_all w = PNum (to_float paid_sum)
         \<and> get_pending_rent w = PNum (to_float pending_sum)
         \<and> paid_sum + pending_sum = sum_list (non_null (map amount_tzs (tabPayment w)))
         \<and> (to_float paid_sum = paid_sum \<and> to_float pending_sum = pending_sum
              \<and> to_float (paid_sum + pending_sum) = paid_sum + pending_sum \<longrightarrow>
              float_add (to_float paid_sum) (to_float pending_sum)
                = sum_list (non_null (map amount_tzs (tabPayment w))))"
proof -
  have "filter (\<lambda>p. docstatus p = 0) (tabPayment w)
          = filter (\<lambda>p. \<not> docstatus p = 1) (tabPayment w)"
    using assms by (intro filter_cong) auto
  then show ?thesis
    using non_null_filter_split [of amount_tzs "\<lambda>p. docstatus p = 1" "tabPayment w"]
    by (simp add: get_total_rent_paid_all_eq get_pending_rent_eq float_add_def)
qed

theorem paid_plus_pending_when_exact_witness:
  "get_total_rent_paid_all sample_world = PNum 300
   \<and> get_pending_rent sample_world = PNum 50
   \<and> float_add 300 50 = 350
   \<and> sum_list (non_null (map amount_tzs (tabPayment sample_world))) = 350"
proof -
  have st: "\<forall>p \<in> set (tabPayment sample_world). docstatus p = 0 \<or> docstatus p = 1"
    by (simp add: sample_world_def)
  have sums:
    "sum_list (non_null (map amount_tzs
        (filter (\<lambda>p. docstatus p = 1) (tabPayment sample_world)))) = 300"
    "sum_list (non_null (map amount_tzs
        (filter (\<lambda>p. docstatus p = 0) (tabPayment sample_world)))) = 50"
    by (simp_all add: sample_world_def)
  have exact: "to_float 300 = 300" "to_float 50 = 50" "to_float 350 = 350"
    using to_float_of_int [of 300] to_float_of_int [of 50] to_float_of_int [of 350] by simp_all
  from paid_plus_pending_when_exact [OF st] show ?thesis
    by (simp add: sums exact)
qed

text \<open>
  Claim C8. When no row has docstatus 1, \<open>get_total_rent_paid_all\<close> returns the float
  zero; when no row has docstatus 0, \<open>get_pending_rent\<close> returns the float zero; on the
  empty table both do. Neither ever returns None, on any table.
\<close>

theorem totals_zero_when_no_rows:
  "(filter (\<lambda>p. docstatus p = 1) (tabPayment w) = [] \<longrightarrow> get_total_rent_paid_all w = PNum 0)
   \<and> (filter (\<lambda>p. docstatus p = 0) (tabPayment w) = [] \<longrightarrow> get_pending_rent w = PNum 0)
   \<and> (tabPayment w = [] \<longrightarrow> get_total_rent_paid_all w = PNum 0 \<and> get_pending_rent w = PNum 0)
   \<and> get_total_rent_paid_all w \<noteq> PNone \<and> get_pending_rent w \<noteq> PNone"
  by (simp add: get_total_rent_paid_all_eq get_pending_rent_eq to_float_zero)


theorem totals_zero_when_no_rows_witness:
  "get_total_rent_paid_all (sample_world\<lparr>tabPayment := []\<rparr>) = PNum 0
   \<and> get_pending_rent (sample_world\<lparr>tabPayment := []\<rparr>) = PNum 0
   \<and> get_pending_rent
        (sample_world\<lparr>tabPayment := [\<lparr>pay_name = ''PAY-1'', amount_tzs = Some 300, docstatus = 1\<rparr>]\<rparr>)
       = PNum 0"
  using totals_zero_when_no_rows [of "sample_world\<lparr>tabPayment := []\<rparr>"]
    totals_zero_when_no_rows
      [of "sample_world\<lparr>tabPayment := [\<lparr>pay_name = ''PAY-1'', amount_tzs = Some 300, docstatus = 1\<rparr>]\<rparr>"]
  by simp

section \<open>Role seeding is idempotent\<close>

lemma filter_key_absent:
  "n \<notin> set (map fst xs) \<Longrightarrow> filter (\<lambda>row. fst row = n) xs = []"
  by (induction xs) auto

lemma one_row_per_name:
  "distinct (map fst xs) \<Longrightarrow> n \<in> set (map fst xs) \<Longrightarrow>
     length (filter (\<lambda>row. fst row = n) xs) = 1"
  by (induction xs) (auto simp: filter_key_absent)

lemma execute_result:
  "execute w =
     (Inr (),
      w\<lparr>tabRole := tabRole w
          @ (if role_exists w ''Landlord'' then []
             else [(''Landlord'', \<lparr>role_name = ''Landlord'', desk_access = 1, is_custom = 1\<rparr>)])
          @ (if role_exists w ''Tenant'' then []
             else [(''Tenant'', \<lparr>role_name = ''Tenant'', desk_access = 1, is_custom = 1\<rparr>)])\<rparr>)"
  by (simp add: execute_def insert_role_def role_exists_def)

text \<open>
  Claim C4. From any Role table whose names are distinct (the primary key), \<open>execute\<close>
  raises nothing; a second run raises nothing and changes nothing; afterwards exactly one
  row is named Landlord and exactly one Tenant, and names are still distinct. A role that
  was already there keeps its row, and when both were there the first run changes nothing.
\<close>

theorem execute_idempotent:
  assumes "distinct (map fst (tabRole w))"
  shows "\<exists>w1. execute w = (Inr (), w1) \<and> execute w1 = (Inr (), w1)
           \<and> length (filter (\<lambda>row. fst row = ''Landlord'') (tabRole w1)) = 1
           \<and> length (filter (\<lambda>row. fst row = ''Tenant'') (tabRole w1)) = 1
           \<and> distinct (map fst (tabRole w1))
           \<and> (role_exists w ''Landlord'' \<longrightarrow>
                filter (\<lambda>row. fst row = ''Landlord'') (tabRole w1)
                  = filter (\<lambda>row. fst row = ''Landlord'') (tabRole w))
           \<and> (role_exists w ''Tenant'' \<longrightarrow>
                filter (\<lambda>row. fst row = ''Tenant'') (tabRole w1)
                  = filter (\<lambda>row. fst row = ''Tenant'') (tabRole w))
           \<and> (role_exists w ''Landlord'' \<and> role_exists w ''Tenant'' \<longrightarrow> w1 = w)"
proof -
  let ?new = "(if role_exists w ''Landlord'' then []
               else [(''Landlord'', \<lparr>role_name = ''Landlord'', desk_access = 1, is_custom = 1\<rparr>)])
            @ (if role_exists w ''Tenant'' then []
               else [(''Tenant'', \<lparr>role_name = ''Tenant'', desk_access = 1, is_custom = 1\<rparr>)])"
  let ?w1 = "w\<lparr>tabRole := tabRole w @ ?new\<rparr>"
  have run1: "execute w = (Inr (), ?w1)"
    by (simp add: execute_result)
  have ex: "role_exists ?w1 ''Landlord''" "role_exists ?w1 ''Tenant''"
    by (auto simp: role_exists_def)
  have run2: "execute ?w1 = (Inr (), ?w1)"
    using ex by (simp add: execute_result)
  have dist: "distinct (map fst (tabRole ?w1))"
    using assms by (auto simp: role_exists_def)
  have one: "length (filter (\<lambda>row. fst row = ''Landlord'') (tabRole ?w1)) = 1"
       "length (filter (\<lambda>row. fst row = ''Tenant'') (tabRole ?w1)) = 1"
    using dist ex by (simp_all only: one_row_per_name role_exists_def)
  have keep: "role_exists w ''Landlord'' \<longrightarrow>
                filter (\<lambda>row. fst row = ''Landlord'') (tabRole ?w1)
                  = filter (\<lambda>row. fst row = ''Landlord'') (tabRole w)"
       "role_exists w ''Tenant'' \<longrightarrow>
                filter (\<lambda>row. fst row = ''Tenant'') (tabRole ?w1)
                  = filter (\<lambda>row. fst row = ''Tenant'') (tabRole w)"
    by auto
  have noop: "role_exists w ''Landlord'' \<and> role_exists w ''Tenant'' \<longrightarrow> ?w1 = w"
    by simp
  from run1 run2 one dist keep noop show ?thesis by blast
qed

theorem execute_idempotent_witness:
  "\<exists>w1. execute sample_world = (Inr (), w1) \<and> execute w1 = (Inr (), w1)
     \<and> length (filter (\<lambda>row. fst row = ''Landlord'') (tabRole w1)) = 1
     \<and> length (filter (\<lambda>row. fst row = ''Tenant'') (tabRole w1)) = 1
     \<and> filter (\<lambda>row. fst row = ''Landlord'') (tabRole w1)
         = [(''Landlord'', \<lparr>role_name = ''Landlord'', desk_access = 1, is_custom = 1\<rparr>)]"
proof -
  have "distinct (map fst (tabRole sample_world))"
    by (simp add: sample_world_def)
  from execute_idempotent [OF this]
  obtain w1 where w1: "execute sample_world = (Inr (), w1)" "execute w1 = (Inr (), w1)"
      "length (filter (\<lambda>row. fst row = ''Landlord'') (tabRole w1)) = 1"
      "length (filter (\<lambda>row. fst row = ''Tenant'') (tabRole w1)) = 1"
      "role_exists sample_world ''Landlord'' \<longrightarrow>
         filter (\<lambda>row. fst row = ''Landlord'') (tabRole w1)
           = filter (\<lambda>row. fst row = ''Landlord'') (tabRole sample_world)"
    by blast
  have "role_exists sample_world ''Landlord''"
    by (simp add: role_exists_def sample_world_def)
  with w1(5) have "filter (\<lambda>row. fst row = ''Landlord'') (tabRole w1)
         = [(''Landlord'', \<lparr>role_name = ''Landlord'', desk_access = 1, is_custom = 1\<rparr>)]"
    by (simp add: sample_world_def)
  with w1(1-4) show ?thesis by blast
qed

section \<open>Users with dashboard roles\<close>

lemma dict_get_dict_set:
  "dict_get (dict_set k v d) k' = (if k' = k then v else dict_get d k')"
  by (simp add: dict_get_def dict_set_def update_conv')

lemma for_each_elem:
  "for_each body xs = Inr ys \<Longrightarrow> y \<in> set ys \<Longrightarrow> \<exists>x \<in> set xs. body x = Inr y"
proof (induction xs arbitrary: ys)
  case Nil
  then show ?case by simp
next
  case (Cons x xs)
  then show ?case by (fastforce split: sum.splits)
qed

lemma for_each_cover:
  "for_each body xs = Inr ys \<Longrightarrow> x \<in> set xs \<Longrightarrow> \<exists>y \<in> set ys. body x = Inr y"
proof (induction xs arbitrary: ys)
  case Nil
  then show ?case by simp
next
  case (Cons x' xs)
  then show ?case by (fastforce split: sum.splits)
qed

lemma for_each_total:
  "(\<And>x. x \<in> set xs \<Longrightarrow> \<exists>y. body x = Inr y) \<Longrightarrow> \<exists>ys. for_each body xs = Inr ys"
proof (induction xs)
  case Nil
  then show ?case by simp
next
  case (Cons x xs)
  then obtain y where "body x = Inr y" by auto
  moreover from Cons obtain ys where "for_each body xs = Inr ys" by auto
  ultimately show ?case by simp
qed

lemma latest_of_two:
  assumes "xs = [r1, r2] \<or> xs = [r2, r1]" "r_creation r1 < r_creation r2"
  shows "take 1 (sort_key (\<lambda>r. - r_creation r) xs) = [r2]"
  using assms by auto

lemma attach_roles_ok:
  assumes "db_fault fr (Q_user_roles (dict_get user ''name'')) w = None"
  shows "attach_roles fr w user =
           Inr (dict_set ''roles''
                  (PList (map (\<lambda>hr. PStr (hr_role hr))
                     (filter (\<lambda>hr. PStr (hr_parent hr) = dict_get user ''name'') (tabHasRole w))))
                  user)"
  using assms by (simp add: attach_roles_def db_query_def comp_def dict_get_def)

lemma roles_of_dict_set: "roles_of (dict_set ''roles'' (PList rs) user) = rs"
  by (simp add: roles_of_def dict_set_def update_conv')

lemma attach_rental_raises:
  assumes "PStr ''Tenants'' \<in> set (roles_of user)"
    and "db_fault fr (Q_active_rental (dict_get user ''name'')) w = Some e"
  shows "attach_rental fr w user = Inl e"
  using assms by (simp add: attach_rental_def db_query_def)

lemma attach_rental_total:
  assumes "\<forall>q. db_fault fr q w = None"
  shows "\<exists>y. attach_rental fr w user = Inr y"
  using assms by (auto simp: attach_rental_def db_query_def split: list.splits)

lemma attach_rental_tenant:
  assumes nofault: "\<forall>q. db_fault fr q w = None"
    and tenant: "PStr ''Tenants'' \<in> set (roles_of user)"
    and nm: "dict_get user ''name'' = PStr n"
    and two: "filter (\<lambda>r. r_tenant r = n \<and> r_status r = ''Active'') (tabRental w) = [r1, r2]
              \<or> filter (\<lambda>r. r_tenant r = n \<and> r_status r = ''Active'') (tabRental w) = [r2, r1]"
    and later: "r_creation r1 < r_creation r2"
    and res: "attach_rental fr w user = Inr d"
  shows "dict_get d ''name'' = PStr n
       \<and> dict_get d ''assigned_property'' = PStr (r_property r2)
       \<and> dict_get d ''property_name'' = property_title w (r_property r2)
       \<and> dict_get d ''lease_start'' = r_start_date r2
       \<and> dict_get d ''lease_end'' = r_end_date r2
       \<and> dict_get d ''monthly_rent'' = r_monthly_rent r2
       \<and> dict_get d ''rental_status'' = PStr ''Active''"
proof -
  have q: "run_query fr (Q_active_rental (PStr n)) w = [rental_select w r2]"
    using latest_of_two [OF two later] by simp
  have d: "d = dict_set ''rental_status'' (PStr ''Active'')
              (dict_set ''monthly_rent'' (r_monthly_rent r2)
              (dict_set ''lease_end'' (r_end_date r2)
              (dict_set ''lease_start'' (r_start_date r2)
              (dict_set ''property_name'' (property_title w (r_property r2))
              (dict_set ''assigned_property'' (PStr (r_property r2)) user)))))"
    using res tenant nofault nm q
    by (simp add: attach_rental_def db_query_def rental_select_def dict_get_def)
  show ?thesis
    unfolding d using nm by (simp add: dict_get_dict_set)
qed

lemma users_query_set:
  "set (run_query fr Q_users_with_roles w) =
     user_select ` {u \<in> set (tabUser w). u_enabled u = 1 \<and>
        (\<exists>hr \<in> set (tabHasRole w). hr_parent hr = u_name u
           \<and> (hr_role hr = ''Tenants'' \<or> hr_role hr = ''System Manager''))}"
proof -
  have "set [u. u \<leftarrow> tabUser w, hr \<leftarrow> tabHasRole w,
              u_name u = hr_parent hr,
              hr_role hr = ''Tenants'' \<or> hr_role hr = ''System Manager'',
              u_enabled u = 1]
        = {u \<in> set (tabUser w). u_enabled u = 1 \<and>
            (\<exists>hr \<in> set (tabHasRole w). hr_parent hr = u_name u
               \<and> (hr_role hr = ''Tenants'' \<or> hr_role hr = ''System Manager''))}"
    by auto
  then show ?thesis by (simp only: run_query.simps set_remdups set_map set_sort)
qed

text \<open>
  Claim C5. Let the database answer every query, and let a user hold the role Tenants and
  have exactly two rentals with status Active, one created before the other. Then every
  entry \<open>get_users_with_roles\<close> returns for that user carries the later rental's property
  as \<open>assigned_property\<close>, that property's title as \<open>property_name\<close> (None when no such
  Property row exists), the later rental's start date, end date and monthly rent, and
  \<open>rental_status\<close> Active; and when the user is an enabled row of the User table, there
  is such an entry. The Rental table is taken with the columns the query names.
\<close>

theorem tenant_gets_latest_active_rental:
  assumes nofault: "\<forall>q. db_fault fr q w = None"
    and role: "\<exists>hr \<in> set (tabHasRole w). hr_parent hr = u_name u \<and> hr_role hr = ''Tenants''"
    and two: "filter (\<lambda>r. r_tenant r = u_name u \<and> r_status r = ''Active'') (tabRental w) = [r1, r2]
              \<or> filter (\<lambda>r. r_tenant r = u_name u \<and> r_status r = ''Active'') (tabRental w) = [r2, r1]"
    and later: "r_creation r1 < r_creation r2"
  shows "(u \<in> set (tabUser w) \<and> u_enabled u = 1 \<longrightarrow>
            (\<exists>d \<in> set (fst (get_users_with_roles fr w)). dict_get d ''name'' = PStr (u_name u)))
       \<and> (\<forall>d \<in> set (fst (get_users_with_roles fr w)).
            dict_get d ''name'' = PStr (u_name u) \<longrightarrow>
              dict_get d ''assigned_property'' = PStr (r_property r2)
            \<and> dict_get d ''property_name'' = property_title w (r_property r2)
            \<and> dict_get d ''lease_start'' = r_start_date r2
            \<and> dict_get d ''lease_end'' = r_end_date r2
            \<and> dict_get d ''monthly_rent'' = r_monthly_rent r2
            \<and> dict_get d ''rental_status'' = PStr ''Active'')"
proof -
  let ?rows = "run_query fr Q_users_with_roles w"
  have q0: "db_query fr Q_users_with_roles w = Inr ?rows"
    using nofault by (simp add: db_query_def)
  obtain users1 where l1: "for_each (attach_roles fr w) ?rows = Inr users1"
    using for_each_total [of ?rows "attach_roles fr w"] attach_roles_ok nofault by blast
  obtain users where l2: "for_each (attach_rental fr w) users1 = Inr users"
    using for_each_total [of users1 "attach_rental fr w"] attach_rental_total [OF nofault] by blast
  have res: "fst (get_users_with_roles fr w) = users"
    by (simp add: get_users_with_roles_def get_users_with_roles_try_def q0 l1 l2
             del: run_query.simps)
  have step: "dict_get d ''name'' = PStr (u_name u)
            \<and> dict_get d ''assigned_property'' = PStr (r_property r2)
            \<and> dict_get d ''property_name'' = property_title w (r_property r2)
            \<and> dict_get d ''lease_start'' = r_start_date r2
            \<and> dict_get d ''lease_end'' = r_end_date r2
            \<and> dict_get d ''monthly_rent'' = r_monthly_rent r2
            \<and> dict_get d ''rental_status'' = PStr ''Active''"
    if row: "dict_get row ''name'' = PStr (u_name u)"
      and a1: "attach_roles fr w row = Inr y1" and a2: "attach_rental fr w y1 = Inr d"
    for row y1 d
  proof -
    let ?rs = "map (\<lambda>hr. PStr (hr_role hr))
                 (filter (\<lambda>hr. PStr (hr_parent hr) = dict_get row ''name'') (tabHasRole w))"
    have y1: "y1 = dict_set ''roles'' (PList ?rs) row"
      using a1 attach_roles_ok [of fr row w] nofault by simp
    have nm: "dict_get y1 ''name'' = PStr (u_name u)"
      by (simp add: y1 dict_get_dict_set row)
    have "PStr ''Tenants'' \<in> set ?rs"
      using role row by force
    then have tn: "PStr ''Tenants'' \<in> set (roles_of y1)"
      by (simp only: y1 roles_of_dict_set)
    from attach_rental_tenant [OF nofault tn nm two later a2] show ?thesis .
  qed
  have name_back: "dict_get row ''name'' = dict_get d ''name''"
    if a1: "attach_roles fr w row = Inr y1" and a2: "attach_rental fr w y1 = Inr d"
    for row y1 d
  proof -
    have "dict_get y1 ''name'' = dict_get row ''name''"
      using a1 attach_roles_ok [of fr row w] nofault by (auto simp: dict_get_dict_set)
    moreover have "dict_get d ''name'' = dict_get y1 ''name''"
      using a2 nofault
      by (auto simp: attach_rental_def db_query_def dict_get_dict_set split: if_splits list.splits)
    ultimately show ?thesis by simp
  qed
  have ex: "\<exists>d \<in> set users. dict_get d ''name'' = PStr (u_name u)"
    if user: "u \<in> set (tabUser w)" "u_enabled u = 1"
  proof -
    have "user_select u \<in> set ?rows"
      unfolding users_query_set using user role by blast
    then obtain y1 where y1: "y1 \<in> set users1" "attach_roles fr w (user_select u) = Inr y1"
      using for_each_cover [OF l1] by blast
    then obtain d where d: "d \<in> set users" "attach_rental fr w y1 = Inr d"
      using for_each_cover [OF l2] by blast
    have "dict_get (user_select u) ''name'' = PStr (u_name u)"
      by (simp add: user_select_def dict_get_def)
    with step [OF this y1(2) d(2)] d(1) show ?thesis by blast
  qed
  have all: "dict_get d ''assigned_property'' = PStr (r_property r2)
            \<and> dict_get d ''property_name'' = property_title w (r_property r2)
            \<and> dict_get d ''lease_start'' = r_start_date r2
            \<and> dict_get d ''lease_end'' = r_end_date r2
            \<and> dict_get d ''monthly_rent'' = r_monthly_rent r2
            \<and> dict_get d ''rental_status'' = PStr ''Active''"
    if "d \<in> set users" "dict_get d ''name'' = PStr (u_name u)" for d
  proof -
    from that(1) obtain y1 where y1: "y1 \<in> set users1" "attach_rental fr w y1 = Inr d"
      using for_each_elem [OF l2] by blast
    then obtain row where row: "row \<in> set ?rows" "attach_roles fr w row = Inr y1"
      using for_each_elem [OF l1] by blast
    have "dict_get row ''name'' = PStr (u_name u)"
      using name_back [OF row(2) y1(2)] that(2) by simp
    from step [OF this row(2) y1(2)] show ?thesis by simp
  qed
  from ex all show ?thesis unfolding res by blast
qed

theorem tenant_gets_latest_active_rental_witness:
  "\<exists>d \<in> set (fst (get_users_with_roles sample_frappe sample_world)).
      dict_get d ''name'' = PStr ''amina@example.com''
    \<and> dict_get d ''assigned_property'' = PStr ''PROP-2''
    \<and> dict_get d ''property_name'' = PStr ''Hill House''
    \<and> dict_get d ''lease_start'' = PDate 19400
    \<and> dict_get d ''lease_end'' = PDate 19765
    \<and> dict_get d ''monthly_rent'' = PNum 550
    \<and> dict_get d ''rental_status'' = PStr ''Active''"
proof -
  have nofault: "\<forall>q. db_fault sample_frappe q sample_world = None"
    by (simp add: sample_frappe_def)
  have role: "\<exists>hr \<in> set (tabHasRole sample_world).
                hr_parent hr = u_name tenant_amina \<and> hr_role hr = ''Tenants''"
    by (simp add: sample_world_def tenant_amina_def)
  have two: "filter (\<lambda>r. r_tenant r = u_name tenant_amina \<and> r_status r = ''Active'')
               (tabRental sample_world) = [rental_early, rental_late]
           \<or> filter (\<lambda>r. r_tenant r = u_name tenant_amina \<and> r_status r = ''Active'')
               (tabRental sample_world) = [rental_late, rental_early]"
    by (simp add: sample_world_def tenant_amina_def rental_early_def rental_late_def
                  rental_same_a_def rental_same_b_def)
  have later: "r_creation rental_early < r_creation rental_late"
    by (simp add: rental_early_def rental_late_def)
  have user: "tenant_amina \<in> set (tabUser sample_world) \<and> u_enabled tenant_amina = 1"
    by (simp add: sample_world_def tenant_amina_def)
  have title: "property_title sample_world (r_property rental_late) = PStr ''Hill House''"
    by (simp add: property_title_def sample_world_def rental_late_def dict_get_def)
  from tenant_gets_latest_active_rental [OF nofault role two later] user
  obtain d where "d \<in> set (fst (get_users_with_roles sample_frappe sample_world))"
      "dict_get d ''name'' = PStr (u_name tenant_amina)"
      "dict_get d ''assigned_property'' = PStr (r_property rental_late)"
      "dict_get d ''property_name'' = property_title sample_world (r_property rental_late)"
      "dict_get d ''lease_start'' = r_start_date rental_late"
      "dict_get d ''lease_end'' = r_end_date rental_late"
      "dict_get d ''monthly_rent'' = r_monthly_rent rental_late"
      "dict_get d ''rental_status'' = PStr ''Active''"
    by blast
  then show ?thesis
    unfolding title by (auto simp: tenant_amina_def rental_late_def)
qed

text \<open>
  Claim C9. Whenever the body of \<open>get_users_with_roles\<close> raises, at the first query or
  part-way through either loop, the handler returns the empty list, the same for every
  exception, and the only trace of the exception is one new entry at the end of the error
  log, holding its text; no table changes.
\<close>

theorem get_users_with_roles_swallows:
  assumes "get_users_with_roles_try fr w = Inl e"
  shows "get_users_with_roles fr w =
           ([], w\<lparr>error_log := error_log w
                    @ [LogMessage (''Error in get_users_with_roles: '' @ exn_str e)]\<rparr>)"
  using assms by (simp add: get_users_with_roles_def log_error_def)

theorem get_users_with_roles_swallows_witness:
  "get_users_with_roles faulty_frappe sample_world =
     ([], sample_world\<lparr>error_log :=
            [LogMessage ''Error in get_users_with_roles: connection lost'']\<rparr>)"
proof -
  let ?row = "user_select tenant_amina"
  let ?y1 = "dict_set ''roles'' (PList [PStr ''Tenants'']) ?row"
  have nm: "dict_get ?row ''name'' = PStr ''amina@example.com''"
    by (simp add: user_select_def tenant_amina_def dict_get_def)
  have rows: "run_query faulty_frappe Q_users_with_roles sample_world = [?row]"
    by (simp add: sample_world_def tenant_amina_def)
  have q0: "db_query faulty_frappe Q_users_with_roles sample_world = Inr [?row]"
    unfolding db_query_def rows by (simp add: faulty_frappe_def sample_frappe_def)
  have "db_fault faulty_frappe (Q_user_roles (dict_get ?row ''name'')) sample_world = None"
    by (simp add: faulty_frappe_def sample_frappe_def)
  from attach_roles_ok [OF this]
  have a1: "attach_roles faulty_frappe sample_world ?row = Inr ?y1"
    by (simp add: nm sample_world_def)
  have tn: "PStr ''Tenants'' \<in> set (roles_of ?y1)"
    by (simp only: roles_of_dict_set) simp
  have "db_fault faulty_frappe (Q_active_rental (dict_get ?y1 ''name'')) sample_world
          = Some (OtherError ''connection lost'')"
    by (simp add: faulty_frappe_def sample_frappe_def)
  from attach_rental_raises [OF tn this]
  have a2: "attach_rental faulty_frappe sample_world ?y1 = Inl (OtherError ''connection lost'')" .
  have "get_users_with_roles_try faulty_frappe sample_world = Inl (OtherError ''connection lost'')"
    by (simp add: get_users_with_roles_try_def q0 a1 a2)
  from get_users_with_roles_swallows [OF this] show ?thesis
    by (simp add: sample_world_def)
qed

section \<open>Active properties of a tenant are counted once each\<close>

text \<open>
  Claim C6. When the query is answered, \<open>get_active_properties_count\<close> returns the success
  payload whose \<open>active_properties_count\<close> is the number of distinct property values among
  the rentals of that tenant with status Active. In particular, for a tenant whose active
  rentals are exactly two rentals of one property, the count is 1.
\<close>

theorem active_properties_count_distinct:
  assumes "db_fault fr (Q_active_properties (PStr tenant)) w = None"
  shows "get_active_properties_count fr tenant w =
           ([(''message'', PStr ''Active properties count fetched successfully.''),
             (''tenant'', PStr tenant),
             (''active_properties_count'',
                PInt (int (card (r_property `
                  {r \<in> set (tabRental w). r_tenant r = tenant \<and> r_status r = ''Active''}))))], w)
         \<and> (filter (\<lambda>r. r_tenant r = tenant \<and> r_status r = ''Active'') (tabRental w) = [r1, r2]
              \<and> r_property r1 = r_property r2 \<longrightarrow>
              dict_get (fst (get_active_properties_count fr tenant w)) ''active_properties_count''
                = PInt 1)"
proof -
  let ?act = "filter (\<lambda>r. r_tenant r = tenant \<and> r_status r = ''Active'') (tabRental w)"
  let ?rows = "map (\<lambda>r. [(''property'', PStr (r_property r))]) ?act"
  have "length (remdups ?rows) = card (set ?rows)"
    by (rule length_remdups_card_conv)
  also have "set ?rows = (\<lambda>p. [(''property'', PStr p)]) ` (r_property ` set ?act)"
    by (simp add: image_image)
  also have "card \<dots> = card (r_property ` set ?act)"
    by (rule card_image) (simp add: inj_on_def)
  finally have len: "length (remdups ?rows) = card (r_property ` set ?act)" .
  have set_act: "set ?act = {r \<in> set (tabRental w). r_tenant r = tenant \<and> r_status r = ''Active''}"
    by auto
  have main: "get_active_properties_count fr tenant w =
           ([(''message'', PStr ''Active properties count fetched successfully.''),
             (''tenant'', PStr tenant),
             (''active_properties_count'', PInt (int (card (r_property ` set ?act))))], w)"
    using assms len by (simp add: get_active_properties_count_def db_query_def Let_def)
  have two: "dict_get (fst (get_active_properties_count fr tenant w)) ''active_properties_count''
                = PInt 1"
    if "?act = [r1, r2]" "r_property r1 = r_property r2"
    using that by (simp add: main dict_get_def)
  from main two set_act show ?thesis by simp
qed

theorem active_properties_count_distinct_witness:
  "dict_get (fst (get_active_properties_count sample_frappe ''bakari@example.com'' sample_world))
     ''active_properties_count'' = PInt 1"
proof -
  have nofault: "db_fault sample_frappe (Q_active_properties (PStr ''bakari@example.com''))
                   sample_world = None"
    by (simp add: sample_frappe_def)
  have two: "filter (\<lambda>r. r_tenant r = ''bakari@example.com'' \<and> r_status r = ''Active'')
               (tabRental sample_world) = [rental_same_a, rental_same_b]
             \<and> r_property rental_same_a = r_property rental_same_b"
    by (simp add: sample_world_def rental_early_def rental_late_def
                  rental_same_a_def rental_same_b_def)
  from active_properties_count_distinct [OF nofault, of rental_same_a rental_same_b] two
  show ?thesis by blast
qed

end
